theory Spec2Isabelle
  imports Main "HOL-Library.Word"
begin

section \<open>JavaScript strings\<close>

text \<open>
  A JavaScript string is a sequence of UTF-16 code units. The regular expressions of the
  dashboard carry no \<open>u\<close> flag, so they too work on code units. ASCII literals are written
  with \<open>js\<close>; the few non-ASCII code units of the sources are given by number.
\<close>

type_synonym cu = "16 word"
type_synonym jsstring = "cu list"

definition js :: "string \<Rightarrow> jsstring" where
  "js s = map of_char s"

subsection \<open>Character classes of the regular expressions\<close>

definition isDigit :: "cu \<Rightarrow> bool" where
  \<comment> \<open>\<^verbatim>\<open>\d\<close>: 0 to 9\<close>
  "isDigit c = (48 \<le> c \<and> c \<le> 57)"

definition isWordChar :: "cu \<Rightarrow> bool" where
  \<comment> \<open>\<^verbatim>\<open>\w\<close>: A-Z, a-z, 0-9 and the underscore\<close>
  "isWordChar c = ((65 \<le> c \<and> c \<le> 90) \<or> (97 \<le> c \<and> c \<le> 122) \<or> isDigit c \<or> c = 95)"

definition isLineTerminator :: "cu \<Rightarrow> bool" where
  \<comment> \<open>LF, CR, U+2028, U+2029: what \<^verbatim>\<open>.\<close> does not match\<close>
  "isLineTerminator c = (c = 10 \<or> c = 13 \<or> c = 8232 \<or> c = 8233)"

definition isWhiteSpace :: "cu \<Rightarrow> bool" where
  \<comment> \<open>\<^verbatim>\<open>\s\<close> and what \<^verbatim>\<open>trim\<close> removes: TAB, VT, FF, SP, NBSP, U+FEFF, the
      space separators U+1680, U+2000 to U+200A, U+202F, U+205F, U+3000, and the four line
      terminators\<close>
  "isWhiteSpace c =
     (c = 9 \<or> c = 11 \<or> c = 12 \<or> c = 32 \<or> c = 160 \<or> c = 65279 \<or>
      c = 5760 \<or> (8192 \<le> c \<and> c \<le> 8202) \<or> c = 8239 \<or> c = 8287 \<or> c = 12288 \<or>
      isLineTerminator c)"

subsection \<open>String methods\<close>

definition startsWith :: "jsstring \<Rightarrow> jsstring \<Rightarrow> bool" where
  "startsWith s p = (take (length p) s = p)"

fun includes_js :: "jsstring \<Rightarrow> jsstring \<Rightarrow> bool" where
  "includes_js [] k = (k = [])"
| "includes_js (c # cs) k = (startsWith (c # cs) k \<or> includes_js cs k)"

definition trim :: "jsstring \<Rightarrow> jsstring" where
  "trim s = rev (dropWhile isWhiteSpace (rev (dropWhile isWhiteSpace s)))"

text \<open>
  \<^verbatim>\<open>s.split("\n")\<close>: the pieces between the line feeds, the piece being read in \<open>cur\<close>.
  The empty string gives one empty piece.
\<close>

fun splitLines :: "jsstring \<Rightarrow> jsstring \<Rightarrow> jsstring list" where
  "splitLines cur [] = [cur]"
| "splitLines cur (c # cs) =
     (if c = 10 then cur # splitLines [] cs else splitLines (cur @ [c]) cs)"

definition split_nl :: "jsstring \<Rightarrow> jsstring list" where
  "split_nl s = splitLines [] s"

fun join_nl :: "jsstring list \<Rightarrow> jsstring" where
  "join_nl [] = []"
| "join_nl [l] = l"
| "join_nl (l # m # ls) = l @ [10] @ join_nl (m # ls)"

definition removeStars :: "jsstring \<Rightarrow> jsstring" where
  \<comment> \<open>\<^verbatim>\<open>.replace(/\*+/g, "")\<close>: every run of asterisks goes, so every asterisk goes\<close>
  "removeStars s = filter (\<lambda>c. c \<noteq> 42) s"

text \<open>
  \<^verbatim>\<open>String.prototype.toUpperCase\<close> follows the Unicode case tables, which are no part of
  the repository. The functions that call it take it as the parameter \<open>up\<close>. For concrete
  inputs \<open>toUpperCase_ascii\<close> is its restriction to ASCII: it maps a-z to A-Z and agrees
  with the built-in on every string of ASCII code units.
\<close>

definition toUpperCase_ascii :: "jsstring \<Rightarrow> jsstring" where
  "toUpperCase_ascii s = map (\<lambda>c. if 97 \<le> c \<and> c \<le> 122 then c - 32 else c) s"

subsection \<open>Splitting on the heading marker\<close>

text \<open>
  \<^verbatim>\<open>markdown.split(/###\s+/)\<close>. The separator matches at a position where three hashes
  are followed by at least one white-space code unit, and extends over the whole run of
  white space (greedy, with nothing after it to backtrack for). \<open>sepLength\<close> is the length
  of the match at the head of the string. The match is never empty, so the scan of
  \<open>split\<close> either closes the piece \<open>cur\<close> and resumes after the match, or moves one code
  unit on. The empty string gives one empty piece.
\<close>

definition sepLength :: "jsstring \<Rightarrow> nat option" where
  "sepLength s =
     (if startsWith s (js ''###'') \<and> takeWhile isWhiteSpace (drop 3 s) \<noteq> []
      then Some (3 + length (takeWhile isWhiteSpace (drop 3 s)))
      else None)"

function splitParts :: "jsstring \<Rightarrow> jsstring \<Rightarrow> jsstring list" where
  "splitParts cur [] = [cur]"
| "splitParts cur (c # cs) =
     (case sepLength (c # cs) of
        Some n \<Rightarrow> cur # splitParts [] (drop n (c # cs))
      | None \<Rightarrow> splitParts (cur @ [c]) cs)"
  by pat_completeness auto
termination
  by (relation "measure (\<lambda>(cur, s). length s)")
     (auto simp: sepLength_def split: if_splits)

definition split_sections :: "jsstring \<Rightarrow> jsstring list" where
  "split_sections markdown = splitParts [] markdown"

section \<open>The section classifier of src/app/page.tsx\<close>

text \<open>
  \<^verbatim>\<open>const SECTION_CONFIG: Record<string, { icon: string; gradient: string }>\<close>, as the
  list \<^verbatim>\<open>Object.entries\<close> returns: the keys in the order they are written.
\<close>

type_synonym config = "jsstring \<times> jsstring"
  \<comment> \<open>icon, gradient\<close>

definition SECTION_CONFIG :: "(jsstring \<times> config) list" where
  "SECTION_CONFIG =
     [(js ''COMMUNITY PULSE'', ([55357, 56545], js ''from-amber-500/10 to-transparent'')),
      (js ''KEY DEVELOPMENTS'', ([9889], js ''from-orange-500/10 to-transparent'')),
      (js ''WHAT THIS MEANS FOR TP'', ([55356, 57263], js ''from-amber-600/10 to-transparent''))]"

record Section_v1 =
  title :: jsstring
  content :: jsstring
  icon :: jsstring

record Section = Section_v1 +
  gradient :: jsstring

datatype error = TypeError

text \<open>
  \<^verbatim>\<open>Object.entries(table).find(([key]) => title.toUpperCase().includes(key))\<close>
\<close>

definition findEntry ::
  "(jsstring \<Rightarrow> jsstring) \<Rightarrow> (jsstring \<times> 'b) list \<Rightarrow> jsstring \<Rightarrow> (jsstring \<times> 'b) option" where
  "findEntry up table t = find (\<lambda>(key, v). includes_js (up t) key) table"

text \<open>
  The body of the \<^verbatim>\<open>for (const part of parts)\<close> loop, with the array \<open>sections\<close> passed
  through. \<^verbatim>\<open>lines[0].replace\<close> throws a TypeError when \<open>lines\<close> is empty.
\<close>

definition parsePart ::
  "(jsstring \<Rightarrow> jsstring) \<Rightarrow> Section list \<Rightarrow> jsstring \<Rightarrow> error + Section list" where
  "parsePart up sections part =
     (if trim part = [] then Inr sections
      else
        (case split_nl (trim part) of
           [] \<Rightarrow> Inl TypeError
         | l0 # ls \<Rightarrow>
             (let title = trim (removeStars l0);
                  content = trim (join_nl ls);
                  match = findEntry up SECTION_CONFIG title
              in case match of
                   None \<Rightarrow> Inr sections
                 | Some (key, cfg) \<Rightarrow>
                     if content \<noteq> []
                     then Inr (sections @
                            [\<lparr>title = key, content = content, icon = fst cfg, gradient = snd cfg\<rparr>])
                     else Inr sections)))"

fun parseLoop ::
  "(jsstring \<Rightarrow> jsstring) \<Rightarrow> Section list \<Rightarrow> jsstring list \<Rightarrow> error + Section list" where
  "parseLoop up sections [] = Inr sections"
| "parseLoop up sections (part # parts) =
     (case parsePart up sections part of
        Inl e \<Rightarrow> Inl e
      | Inr sections' \<Rightarrow> parseLoop up sections' parts)"

definition parseSections :: "(jsstring \<Rightarrow> jsstring) \<Rightarrow> jsstring \<Rightarrow> error + Section list" where
  "parseSections up markdown = parseLoop up [] (split_sections markdown)"

section \<open>The section classifier of src/unnamed/part_001\<close>

text \<open>
  This revision keeps the heading text as the title and looks the table up for the
  icon only, with a default icon when no key matches. Its non-ASCII literals are written
  here as the code units the file holds.
\<close>

definition sectionMap :: "(jsstring \<times> jsstring) list" where
  "sectionMap =
     [(js ''COMMUNITY PULSE'', [240, 376, 8220, 161]),
      (js ''KEY DEVELOPMENTS'', [226, 353, 161]),
      (js ''WHAT THIS MEANS FOR TP'', [240, 376, 381, 175])]"

definition defaultIcon :: jsstring where
  "defaultIcon = [240, 376, 8220, 8249]"

definition parsePart_part_001 ::
  "(jsstring \<Rightarrow> jsstring) \<Rightarrow> Section_v1 list \<Rightarrow> jsstring \<Rightarrow> error + Section_v1 list" where
  "parsePart_part_001 up sections part =
     (if trim part = [] then Inr sections
      else
        (case split_nl (trim part) of
           [] \<Rightarrow> Inl TypeError
         | l0 # ls \<Rightarrow>
             (let title = trim (removeStars l0);
                  content = trim (join_nl ls);
                  icon = (case findEntry up sectionMap title of
                            None \<Rightarrow> defaultIcon
                          | Some (key, ic) \<Rightarrow> if ic \<noteq> [] then ic else defaultIcon)
              in if content \<noteq> []
                 then Inr (sections @ [\<lparr>title = title, content = content, icon = icon\<rparr>])
                 else Inr sections)))"

fun parseLoop_part_001 ::
  "(jsstring \<Rightarrow> jsstring) \<Rightarrow> Section_v1 list \<Rightarrow> jsstring list \<Rightarrow> error + Section_v1 list" where
  "parseLoop_part_001 up sections [] = Inr sections"
| "parseLoop_part_001 up sections (part # parts) =
     (case parsePart_part_001 up sections part of
        Inl e \<Rightarrow> Inl e
      | Inr sections' \<Rightarrow> parseLoop_part_001 up sections' parts)"

definition parseSections_part_001 ::
  "(jsstring \<Rightarrow> jsstring) \<Rightarrow> jsstring \<Rightarrow> error + Section_v1 list" where
  "parseSections_part_001 up markdown = parseLoop_part_001 up [] (split_sections markdown)"

section \<open>The line-based section classifier of src/unnamed/part_000\<close>

definition SECTION_CONFIG_part_000 :: "(jsstring \<times> config) list" where
  "SECTION_CONFIG_part_000 =
     [(js ''QUICK BRIEF'', ([9889], js ''from-amber-400/10 to-orange-500/5'')),
      (js ''COMMUNITY PULSE'', ([55357, 56545], js ''from-amber-500/10 to-transparent'')),
      (js ''KEY DEVELOPMENTS'', ([55357, 56593], js ''from-orange-500/10 to-transparent'')),
      (js ''WHAT THIS MEANS FOR TP'', ([55356, 57263], js ''from-amber-600/10 to-transparent''))]"

text \<open>
  \<^verbatim>\<open>line.match(/^#{1,3}\s+(.+)/)\<close>, returning the group or \<open>None\<close> for \<^verbatim>\<open>null\<close>. The
  quantifiers are greedy and backtrack: \<^verbatim>\<open>(.+)\<close> takes the longest non-empty run of code
  units that are no line terminators; \<^verbatim>\<open>\s+\<close> is one white-space unit and then as many as
  still let the rest match; \<^verbatim>\<open>#{1,3}\<close> tries three hashes, then two, then one.
\<close>

definition dotPlus :: "jsstring \<Rightarrow> jsstring option" where
  "dotPlus s =
     (if takeWhile (\<lambda>c. \<not> isLineTerminator c) s = [] then None
      else Some (takeWhile (\<lambda>c. \<not> isLineTerminator c) s))"

fun spaceStarDot :: "jsstring \<Rightarrow> jsstring option" where
  "spaceStarDot [] = dotPlus []"
| "spaceStarDot (c # cs) =
     (if isWhiteSpace c
      then (case spaceStarDot cs of Some g \<Rightarrow> Some g | None \<Rightarrow> dotPlus (c # cs))
      else dotPlus (c # cs))"

definition spacePlusDot :: "jsstring \<Rightarrow> jsstring option" where
  "spacePlusDot s =
     (case s of [] \<Rightarrow> None | c # cs \<Rightarrow> if isWhiteSpace c then spaceStarDot cs else None)"

definition hashesThen :: "nat \<Rightarrow> jsstring \<Rightarrow> jsstring option" where
  "hashesThen n s = (if take n s = replicate n 35 then spacePlusDot (drop n s) else None)"

definition headerMatch :: "jsstring \<Rightarrow> jsstring option" where
  "headerMatch line =
     (case hashesThen 3 line of
        Some g \<Rightarrow> Some g
      | None \<Rightarrow>
          (case hashesThen 2 line of
             Some g \<Rightarrow> Some g
           | None \<Rightarrow> hashesThen 1 line))"

text \<open>
  The block that closes a section, written twice in the source (inside the loop at a
  header line, and after the loop): it pushes the section of \<open>currentTitle\<close> and
  \<open>currentContent\<close> when the title is non-empty, at least one line was collected, a key
  matches and the trimmed content is non-empty.
\<close>

definition closeSection ::
  "(jsstring \<Rightarrow> jsstring) \<Rightarrow> Section list \<Rightarrow> jsstring \<Rightarrow> jsstring list \<Rightarrow> Section list" where
  "closeSection up sections currentTitle currentContent =
     (if currentTitle \<noteq> [] \<and> length currentContent > 0
      then
        (let trimmedContent = trim (join_nl currentContent);
             match = findEntry up SECTION_CONFIG_part_000 currentTitle
         in case match of
              None \<Rightarrow> sections
            | Some (key, cfg) \<Rightarrow>
                if trimmedContent \<noteq> []
                then sections @
                       [\<lparr>title = key, content = trimmedContent, icon = fst cfg, gradient = snd cfg\<rparr>]
                else sections)
      else sections)"

fun lineLoop ::
  "(jsstring \<Rightarrow> jsstring) \<Rightarrow> Section list \<Rightarrow> jsstring \<Rightarrow> jsstring list \<Rightarrow> jsstring list
     \<Rightarrow> Section list \<times> jsstring \<times> jsstring list" where
  "lineLoop up sections currentTitle currentContent [] =
     (sections, currentTitle, currentContent)"
| "lineLoop up sections currentTitle currentContent (line # lines) =
     (case headerMatch line of
        Some g \<Rightarrow>
          lineLoop up (closeSection up sections currentTitle currentContent)
            (trim (removeStars g)) [] lines
      | None \<Rightarrow> lineLoop up sections currentTitle (currentContent @ [line]) lines)"

definition parseSections_part_000 :: "(jsstring \<Rightarrow> jsstring) \<Rightarrow> jsstring \<Rightarrow> Section list" where
  "parseSections_part_000 up markdown =
     (case lineLoop up [] [] [] (split_nl markdown) of
        (sections, currentTitle, currentContent) \<Rightarrow>
          closeSection up sections currentTitle currentContent)"

section \<open>Parts, headings and bodies\<close>

text \<open>
  The notions the properties below are stated with, each read off the source. For the
  revisions that split on the marker, a part is a piece of \<open>split_sections\<close>; its heading
  is the \<open>title\<close> the loop computes from its first line, its body the \<open>content\<close>.
\<close>

definition heading :: "jsstring \<Rightarrow> jsstring" where
  "heading part =
     (case split_nl (trim part) of [] \<Rightarrow> [] | l0 # ls \<Rightarrow> trim (removeStars l0))"

definition body :: "jsstring \<Rightarrow> jsstring" where
  "body part =
     (case split_nl (trim part) of [] \<Rightarrow> [] | l0 # ls \<Rightarrow> trim (join_nl ls))"

definition matchesLabel ::
  "(jsstring \<Rightarrow> jsstring) \<Rightarrow> (jsstring \<times> 'b) list \<Rightarrow> jsstring \<Rightarrow> bool" where
  \<comment> \<open>some key of the table is a substring of the upper-cased heading text\<close>
  "matchesLabel up table t = list_ex (\<lambda>(key, v). includes_js (up t) key) table"

definition sectionOf :: "(jsstring \<Rightarrow> jsstring) \<Rightarrow> jsstring \<Rightarrow> Section option" where
  \<comment> \<open>the section a part contributes in src/app/page.tsx, if it contributes one\<close>
  "sectionOf up part =
     (case findEntry up SECTION_CONFIG (heading part) of
        None \<Rightarrow> None
      | Some (key, cfg) \<Rightarrow>
          if body part \<noteq> []
          then Some \<lparr>title = key, content = body part, icon = fst cfg, gradient = snd cfg\<rparr>
          else None)"

definition sectionOf_part_001 :: "(jsstring \<Rightarrow> jsstring) \<Rightarrow> jsstring \<Rightarrow> Section_v1 option" where
  \<comment> \<open>the section a part contributes in src/unnamed/part_001, if it contributes one\<close>
  "sectionOf_part_001 up part =
     (if body part \<noteq> []
      then Some \<lparr>title = heading part, content = body part,
                 icon = (case findEntry up sectionMap (heading part) of
                           None \<Rightarrow> defaultIcon
                         | Some (key, ic) \<Rightarrow> if ic \<noteq> [] then ic else defaultIcon)\<rparr>
      else None)"

text \<open>
  For the line-based revision a part is a heading text with the lines that follow its
  header line, up to the next header line. \<open>headedParts\<close> lists the parts of a text in
  order; the first one holds the lines before the first header line, under the empty
  heading text.
\<close>

fun groupLines :: "jsstring \<Rightarrow> jsstring list \<Rightarrow> jsstring list \<Rightarrow> (jsstring \<times> jsstring list) list" where
  "groupLines t c [] = [(t, c)]"
| "groupLines t c (line # lines) =
     (case headerMatch line of
        Some g \<Rightarrow> (t, c) # groupLines (trim (removeStars g)) [] lines
      | None \<Rightarrow> groupLines t (c @ [line]) lines)"

definition headedParts :: "jsstring \<Rightarrow> (jsstring \<times> jsstring list) list" where
  "headedParts markdown = groupLines [] [] (split_nl markdown)"

definition sectionOf_part_000 ::
  "(jsstring \<Rightarrow> jsstring) \<Rightarrow> jsstring \<times> jsstring list \<Rightarrow> Section option" where
  "sectionOf_part_000 up part =
     (case findEntry up SECTION_CONFIG_part_000 (fst part) of
        None \<Rightarrow> None
      | Some (key, cfg) \<Rightarrow>
          if fst part \<noteq> [] \<and> trim (join_nl (snd part)) \<noteq> []
          then Some \<lparr>title = key, content = trim (join_nl (snd part)),
                      icon = fst cfg, gradient = snd cfg\<rparr>
          else None)"

section \<open>The inline formatter\<close>

subsection \<open>Global replacement\<close>

text \<open>
  \<^verbatim>\<open>s.replace(/.../g, template)\<close> scans the string from left to right: where the
  expression matches, the match is recorded and the scan resumes behind it; elsewhere one
  code unit is passed over. The result is then built from the pieces, each match
  replaced by the template with \<^verbatim>\<open>$1\<close> filled in. A piece is a match (holding the text
  of group 1) or a code unit that is kept.
\<close>

datatype piece = Match jsstring | Keep cu

fun fillTemplate :: "jsstring \<Rightarrow> jsstring \<Rightarrow> piece \<Rightarrow> jsstring" where
  "fillTemplate opening closing (Match g) = opening @ g @ closing"
| "fillTemplate opening closing (Keep c) = [c]"

definition spanClose :: jsstring where
  "spanClose = js ''</span>''"

subsection \<open>Emphasis\<close>

text \<open>
  \<^verbatim>\<open>.replace(/\*\*(.*?)\*\*/g, '<span class="text-white font-semibold">$1</span>')\<close>.
  \<open>lazyGroup\<close> is \<^verbatim>\<open>(.*?)\*\*\<close> behind the opening asterisks: the lazy quantifier
  first tries to close with two asterisks, and only then takes one more code unit, which
  must not be a line terminator.
\<close>

fun lazyGroup :: "jsstring \<Rightarrow> jsstring option" where
  "lazyGroup [] = None"
| "lazyGroup (c # cs) =
     (if startsWith (c # cs) (js ''**'') then Some []
      else if isLineTerminator c then None
      else map_option ((#) c) (lazyGroup cs))"

definition boldMatch :: "jsstring \<Rightarrow> jsstring option" where
  "boldMatch s = (if startsWith s (js ''**'') then lazyGroup (drop 2 s) else None)"

function boldPieces :: "jsstring \<Rightarrow> piece list" where
  "boldPieces [] = []"
| "boldPieces (c # cs) =
     (case boldMatch (c # cs) of
        Some g \<Rightarrow> Match g # boldPieces (drop (length g + 4) (c # cs))
      | None \<Rightarrow> Keep c # boldPieces cs)"
  by pat_completeness auto
termination
  by (relation "measure length") auto

definition emphasisOpen :: jsstring where
  \<open>emphasisOpen = js ''<span class="text-white font-semibold">''\<close>

definition boldSpans :: "jsstring \<Rightarrow> jsstring" where
  "boldSpans s = concat (map (fillTemplate emphasisOpen spanClose) (boldPieces s))"

subsection \<open>Numeric highlighting\<close>

text \<open>
  \<^verbatim>\<open>/(?<![<\w\d#/])(\d[\d,]*\.?\d*(?:\+|U+2191|U+2193|%|B|K|M|x)?)/g\<close>, with the two
  arrows written by their code points. Behind the first digit every part of the expression is optional,
  so the greedy choice at each part is the match: the longest run of digits and commas,
  a dot if one follows, the longest run of digits, one suffix unit if one follows.
  The look-behind fails when the code unit before the match is \<^verbatim>\<open><\<close>, a word
  character, \<^verbatim>\<open>#\<close> or \<^verbatim>\<open>/\<close>; at the start of the string it holds.
\<close>

definition isSuffixUnit :: "cu \<Rightarrow> bool" where
  "isSuffixUnit c =
     (c = 43 \<or> c = 8593 \<or> c = 8595 \<or> c = 37 \<or> c = 66 \<or> c = 75 \<or> c = 77 \<or> c = 120)"

definition numToken :: "jsstring \<Rightarrow> jsstring option" where
  "numToken s =
     (case s of
        [] \<Rightarrow> None
      | d # r0 \<Rightarrow>
          if \<not> isDigit d then None
          else
            (let a = takeWhile (\<lambda>c. isDigit c \<or> c = 44) r0;
                 r1 = drop (length a) r0;
                 dot = (if startsWith r1 (js ''.'') then js ''.'' else []);
                 r2 = drop (length dot) r1;
                 b = takeWhile isDigit r2;
                 r3 = drop (length b) r2;
                 sfx = (case r3 of [] \<Rightarrow> [] | x # r4 \<Rightarrow> if isSuffixUnit x then [x] else [])
             in Some (d # a @ dot @ b @ sfx)))"

definition lookbehindOk :: "cu option \<Rightarrow> bool" where
  "lookbehindOk prev =
     (case prev of
        None \<Rightarrow> True
      | Some p \<Rightarrow> \<not> (p = 60 \<or> isWordChar p \<or> isDigit p \<or> p = 35 \<or> p = 47))"

text \<open>\<open>prev\<close> is the code unit before the position of the scan, if there is one.\<close>

function numPieces :: "cu option \<Rightarrow> jsstring \<Rightarrow> piece list" where
  "numPieces prev [] = []"
| "numPieces prev (c # cs) =
     (case (if lookbehindOk prev then numToken (c # cs) else None) of
        Some t \<Rightarrow> Match t # numPieces (Some (last t)) (drop (length t) (c # cs))
      | None \<Rightarrow> Keep c # numPieces (Some c) cs)"
  by pat_completeness auto
termination
  by (relation "measure (\<lambda>(prev, s). length s)")
     (auto simp: numToken_def Let_def split: if_splits)

definition numberOpen :: jsstring where
  \<open>numberOpen = js ''<span class="text-amber-400 font-medium tabular-nums">''\<close>

definition highlightNumbers :: "jsstring \<Rightarrow> jsstring" where
  "highlightNumbers html =
     concat (map (fillTemplate numberOpen spanClose) (numPieces None html))"



subsection \<open>Lines to blocks\<close>

text \<open>
  \<^verbatim>\<open>/^\d+\./\<close> at the head of a line: the digits, then a dot. \<open>ordinalLength\<close> is the
  length of that match.
\<close>

definition ordinalLength :: "jsstring \<Rightarrow> nat option" where
  "ordinalLength s =
     (if takeWhile isDigit s \<noteq> [] \<and> startsWith (drop (length (takeWhile isDigit s)) s) (js ''.'')
      then Some (length (takeWhile isDigit s) + 1)
      else None)"

definition stripOrdinal :: "jsstring \<Rightarrow> jsstring" where
  \<comment> \<open>\<^verbatim>\<open>.replace(/^\d+\.\s*/, "")\<close>\<close>
  "stripOrdinal s =
     (case ordinalLength s of
        Some n \<Rightarrow> dropWhile isWhiteSpace (drop n s)
      | None \<Rightarrow> s)"

definition isNumberedLine :: "jsstring \<Rightarrow> bool" where
  \<comment> \<open>\<^verbatim>\<open>/^\d+\./.test(trimmed)\<close>\<close>
  "isNumberedLine s = (ordinalLength s \<noteq> None)"

definition stripGlyph :: "cu list \<Rightarrow> jsstring \<Rightarrow> jsstring" where
  \<comment> \<open>\<^verbatim>\<open>.replace(/^[...]\s*/, "")\<close> for the character class \<open>glyphs\<close>\<close>
  "stripGlyph glyphs s =
     (case s of
        [] \<Rightarrow> []
      | c # cs \<Rightarrow> if c \<in> set glyphs then dropWhile isWhiteSpace cs else s)"

text \<open>
  A display block: the element \<^verbatim>\<open>formatBullets\<close> returns for a line, with its React
  key and the markup it passes as \<^verbatim>\<open>__html\<close>. A bullet block is the \<^verbatim>\<open>div\<close> with the
  arrow glyph in front, a paragraph block the element without it. Class names are styling
  and are left out; \<^verbatim>\<open>null\<close> (an empty line) is \<open>None\<close>.
\<close>

datatype block = Bullet nat jsstring | Paragraph nat jsstring

definition formatLine :: "nat \<Rightarrow> jsstring \<Rightarrow> block option" where
  "formatLine i line =
     (let trimmed = trim line
      in if trimmed = [] then None
         else
           (let formatted = highlightNumbers (boldSpans (stripOrdinal trimmed));
                isBullet = (startsWith trimmed (js ''-'') \<or> startsWith trimmed [8226]);
                isNumbered = isNumberedLine trimmed;
                cleanLine = (if isBullet \<or> isNumbered
                             then stripGlyph [45, 8226] formatted else formatted)
            in if isBullet \<or> isNumbered then Some (Bullet i cleanLine)
               else Some (Paragraph i formatted)))"

definition formatBullets :: "jsstring \<Rightarrow> block option list" where
  \<comment> \<open>src/app/page.tsx; src/unnamed/part_000 differs in the class names only\<close>
  "formatBullets text = map (\<lambda>(i, line). formatLine i line) (enumerate 0 (split_nl text))"


text \<open>
  The revision in src/unnamed/part_001 has no numeric highlighting and no rule for
  numbered lines; its bullet test and character class hold the three code units
  U+00E2, U+20AC, U+00A2 where the other revisions hold U+2022.
\<close>

definition formatLine_part_001 :: "nat \<Rightarrow> jsstring \<Rightarrow> block option" where
  "formatLine_part_001 i line =
     (let trimmed = trim line
      in if trimmed = [] then None
         else
           (let formatted = boldSpans (stripOrdinal trimmed);
                isBullet = (startsWith trimmed (js ''-'') \<or> startsWith trimmed [226, 8364, 162]);
                cleanLine = (if isBullet
                             then stripGlyph [45, 226, 8364, 162] formatted else formatted)
            in if isBullet then Some (Bullet i cleanLine)
               else Some (Paragraph i cleanLine)))"

definition formatBullets_part_001 :: "jsstring \<Rightarrow> block option list" where
  "formatBullets_part_001 text =
     map (\<lambda>(i, line). formatLine_part_001 i line) (enumerate 0 (split_nl text))"

section \<open>Action items\<close>

text \<open>
  \<^verbatim>\<open>interface ActionItem { id: string; text: string; completed: boolean; }\<close>
  The record is used at its extensible type, so that an object read back from local
  storage with further properties is covered: the spread \<^verbatim>\<open>{ ...item, completed: ... }\<close>
  copies them.
\<close>

record ActionItem =
  item_id :: jsstring
  item_text :: jsstring
  completed :: bool

text \<open>
  \<^verbatim>\<open>setActionItems((prev) => prev.map((item) =>
       item.id === id ? { ...item, completed: !item.completed } : item))\<close>
  The state update is the function from the previous list to the next one.
\<close>

definition toggleActionItem ::
  "jsstring \<Rightarrow> 'a ActionItem_scheme list \<Rightarrow> 'a ActionItem_scheme list" where
  "toggleActionItem ident prev =
     map (\<lambda>item. if item_id item = ident
                 then item\<lparr>completed := \<not> completed item\<rparr>
                 else item) prev"

section \<open>Properties of the section classifier\<close>

subsection \<open>The loops as filters over the parts\<close>

lemma splitLines_not_Nil: "splitLines cur s \<noteq> []"
  by (induction s arbitrary: cur) auto

lemma split_nl_not_Nil: "split_nl s \<noteq> []"
  by (simp add: split_nl_def splitLines_not_Nil)

lemma trim_Nil: "trim [] = []"
  by (simp add: trim_def)

lemma split_nl_Nil: "split_nl [] = [[]]"
  by (simp add: split_nl_def)

lemma parsePart_eq:
  "parsePart up secs p = Inr (secs @ (case sectionOf up p of None \<Rightarrow> [] | Some s \<Rightarrow> [s]))"
proof (cases "trim p = []")
  case True
  then have "body p = []"
    by (simp add: body_def split_nl_Nil trim_Nil)
  then have "sectionOf up p = None"
    by (simp add: sectionOf_def split: option.splits)
  with True show ?thesis
    by (simp add: parsePart_def)
next
  case False
  obtain l0 ls where ls: "split_nl (trim p) = l0 # ls"
    using split_nl_not_Nil [of "trim p"] by (cases "split_nl (trim p)") auto
  show ?thesis
    using False ls
    by (simp add: parsePart_def sectionOf_def heading_def body_def Let_def split: option.splits)
qed

lemma parseLoop_eq:
  "parseLoop up secs ps = Inr (secs @ List.map_filter (sectionOf up) ps)"
proof (induction ps arbitrary: secs)
  case Nil
  show ?case by (simp add: List.map_filter_simps)
next
  case (Cons p ps)
  show ?case
    by (simp add: parsePart_eq Cons.IH List.map_filter_simps split: option.splits)
qed

lemma parseSections_eq:
  "parseSections up md = Inr (List.map_filter (sectionOf up) (split_sections md))"
  by (simp add: parseSections_def parseLoop_eq)

lemma find_None_list_ex: "(find P xs = None) = (\<not> list_ex P xs)"
  by (auto simp: find_None_iff list_ex_iff)

lemma findEntry_None_iff: "(findEntry up table t = None) = (\<not> matchesLabel up table t)"
  by (simp add: findEntry_def matchesLabel_def find_None_list_ex)

lemma sectionOf_Some_iff:
  "(sectionOf up p \<noteq> None) = (matchesLabel up SECTION_CONFIG (heading p) \<and> body p \<noteq> [])"
proof (cases "findEntry up SECTION_CONFIG (heading p)")
  case None
  then show ?thesis
    using findEntry_None_iff [of up SECTION_CONFIG "heading p"] by (simp add: sectionOf_def)
next
  case (Some e)
  then show ?thesis
    using findEntry_None_iff [of up SECTION_CONFIG "heading p"]
    by (cases e) (simp add: sectionOf_def)
qed

lemma closeSection_eq:
  "closeSection up secs t c =
     secs @ (case sectionOf_part_000 up (t, c) of None \<Rightarrow> [] | Some s \<Rightarrow> [s])"
proof (cases "c = []")
  case True
  then show ?thesis
    by (simp add: closeSection_def sectionOf_part_000_def trim_Nil split: option.splits)
next
  case False
  then show ?thesis
    by (simp add: closeSection_def sectionOf_part_000_def Let_def split: option.splits)
qed

lemma lineLoop_eq:
  "(case lineLoop up secs t c ls of (s', t', c') \<Rightarrow> closeSection up s' t' c') =
     secs @ List.map_filter (sectionOf_part_000 up) (groupLines t c ls)"
proof (induction ls arbitrary: secs t c)
  case Nil
  show ?case
    by (simp add: closeSection_eq List.map_filter_simps split: option.splits)
next
  case (Cons l ls)
  show ?case
  proof (cases "headerMatch l")
    case None
    then show ?thesis by (simp add: Cons.IH)
  next
    case (Some g)
    have "(case lineLoop up secs t c (l # ls) of (s', t', c') \<Rightarrow> closeSection up s' t' c') =
            closeSection up secs t c @
              List.map_filter (sectionOf_part_000 up) (groupLines (trim (removeStars g)) [] ls)"
      using Some by (simp add: Cons.IH)
    also have "\<dots> = secs @ List.map_filter (sectionOf_part_000 up) (groupLines t c (l # ls))"
      using Some by (simp add: closeSection_eq List.map_filter_simps split: option.splits)
    finally show ?thesis .
  qed
qed

lemma parseSections_part_000_eq:
  "parseSections_part_000 up md = List.map_filter (sectionOf_part_000 up) (headedParts md)"
  using lineLoop_eq [of up "[]" "[]" "[]" "split_nl md"]
  by (simp add: parseSections_part_000_def headedParts_def)

lemma sectionOf_part_000_Some_iff:
  "(sectionOf_part_000 up (t, c) \<noteq> None) =
     (t \<noteq> [] \<and> matchesLabel up SECTION_CONFIG_part_000 t \<and> trim (join_nl c) \<noteq> [])"
proof (cases "findEntry up SECTION_CONFIG_part_000 t")
  case None
  then show ?thesis
    using findEntry_None_iff [of up SECTION_CONFIG_part_000 t]
    by (simp add: sectionOf_part_000_def)
next
  case (Some e)
  then show ?thesis
    using findEntry_None_iff [of up SECTION_CONFIG_part_000 t]
    by (cases e) (simp add: sectionOf_part_000_def)
qed

lemma parsePart_part_001_eq:
  "parsePart_part_001 up secs p =
     Inr (secs @ (case sectionOf_part_001 up p of None \<Rightarrow> [] | Some s \<Rightarrow> [s]))"
proof (cases "trim p = []")
  case True
  then have "body p = []"
    by (simp add: body_def split_nl_Nil trim_Nil)
  with True show ?thesis
    by (simp add: parsePart_part_001_def sectionOf_part_001_def)
next
  case False
  obtain l0 ls where ls: "split_nl (trim p) = l0 # ls"
    using split_nl_not_Nil [of "trim p"] by (cases "split_nl (trim p)") auto
  show ?thesis
    using False ls
    by (simp add: parsePart_part_001_def sectionOf_part_001_def heading_def body_def Let_def)
qed

lemma parseLoop_part_001_eq:
  "parseLoop_part_001 up secs ps = Inr (secs @ List.map_filter (sectionOf_part_001 up) ps)"
proof (induction ps arbitrary: secs)
  case Nil
  show ?case by (simp add: List.map_filter_simps)
next
  case (Cons p ps)
  show ?case
    by (simp add: parsePart_part_001_eq Cons.IH List.map_filter_simps split: option.splits)
qed

lemma parseSections_part_001_eq:
  "parseSections_part_001 up md = Inr (List.map_filter (sectionOf_part_001 up) (split_sections md))"
  by (simp add: parseSections_part_001_def parseLoop_part_001_eq)

subsection \<open>Look-up and splitting\<close>







lemma map_filter_all_None:
  "(\<forall>x\<in>set xs. f x = None) \<Longrightarrow> List.map_filter f xs = []"
  by (induction xs) (simp_all add: List.map_filter_simps)



lemma no_label_in_empty:
  "up [] = [] \<Longrightarrow> \<not> matchesLabel up SECTION_CONFIG_part_000 []"
  by (simp add: matchesLabel_def SECTION_CONFIG_part_000_def js_def)





subsection \<open>The claims about the classifier\<close>

text \<open>
  C1, as the code has it. In src/app/page.tsx the heading of a part is the first line of
  every piece between the \<^verbatim>\<open>###\<close> markers, the text before the first marker included;
  in src/unnamed/part_000 it is the text of a header line. For every markdown string in
  which no such heading text contains a category key as a case-insensitive substring,
  the classifier of these two revisions returns the empty section list and raises no
  error.
\<close>

theorem parseSections_no_match_empty:
  "((\<forall>p\<in>set (split_sections md). \<not> matchesLabel up SECTION_CONFIG (heading p))
      \<longrightarrow> parseSections up md = Inr []) \<and>
   ((\<forall>part\<in>set (headedParts md). \<not> matchesLabel up SECTION_CONFIG_part_000 (fst part))
      \<longrightarrow> parseSections_part_000 up md = [])"
proof (intro conjI impI)
  assume h: "\<forall>p\<in>set (split_sections md). \<not> matchesLabel up SECTION_CONFIG (heading p)"
  have "\<forall>p\<in>set (split_sections md). sectionOf up p = None"
  proof
    fix p assume "p \<in> set (split_sections md)"
    with h have "\<not> matchesLabel up SECTION_CONFIG (heading p)" by blast
    then show "sectionOf up p = None"
      using sectionOf_Some_iff [of up p] by blast
  qed
  then show "parseSections up md = Inr []"
    by (simp add: parseSections_eq map_filter_all_None)
next
  assume h: "\<forall>part\<in>set (headedParts md). \<not> matchesLabel up SECTION_CONFIG_part_000 (fst part)"
  have "\<forall>part\<in>set (headedParts md). sectionOf_part_000 up part = None"
  proof
    fix part assume "part \<in> set (headedParts md)"
    with h have "\<not> matchesLabel up SECTION_CONFIG_part_000 (fst part)" by blast
    then show "sectionOf_part_000 up part = None"
      using sectionOf_part_000_Some_iff [of up "fst part" "snd part"] by simp
  qed
  then show "parseSections_part_000 up md = []"
    by (simp add: parseSections_part_000_eq map_filter_all_None)
qed

theorem parseSections_no_match_empty_witness:
  "split_sections (js ''### WEATHER'' @ [10] @ js ''Sunny'') =
     [[], js ''WEATHER'' @ [10] @ js ''Sunny''] \<and>
   \<not> matchesLabel toUpperCase_ascii SECTION_CONFIG (heading []) \<and>
   \<not> matchesLabel toUpperCase_ascii SECTION_CONFIG (heading (js ''WEATHER'' @ [10] @ js ''Sunny'')) \<and>
   parseSections toUpperCase_ascii (js ''### WEATHER'' @ [10] @ js ''Sunny'') = Inr [] \<and>
   headedParts (js ''## WEATHER'' @ [10] @ js ''Sunny'') = [([], []), (js ''WEATHER'', [js ''Sunny''])] \<and>
   \<not> matchesLabel toUpperCase_ascii SECTION_CONFIG_part_000 [] \<and>
   \<not> matchesLabel toUpperCase_ascii SECTION_CONFIG_part_000 (js ''WEATHER'') \<and>
   parseSections_part_000 toUpperCase_ascii (js ''## WEATHER'' @ [10] @ js ''Sunny'') = []"
proof -
  let ?md = "js ''### WEATHER'' @ [10] @ js ''Sunny''"
  let ?md' = "js ''## WEATHER'' @ [10] @ js ''Sunny''"
  have s: "split_sections ?md = [[], js ''WEATHER'' @ [10] @ js ''Sunny'']"
    by code_simp
  have a1: "\<not> matchesLabel toUpperCase_ascii SECTION_CONFIG (heading [])"
    by code_simp
  have a2: "\<not> matchesLabel toUpperCase_ascii SECTION_CONFIG
                (heading (js ''WEATHER'' @ [10] @ js ''Sunny''))"
    by code_simp
  have h: "headedParts ?md' = [([], []), (js ''WEATHER'', [js ''Sunny''])]"
    by code_simp
  have b1: "\<not> matchesLabel toUpperCase_ascii SECTION_CONFIG_part_000 []"
    by code_simp
  have b2: "\<not> matchesLabel toUpperCase_ascii SECTION_CONFIG_part_000 (js ''WEATHER'')"
    by code_simp
  have a: "\<forall>p\<in>set (split_sections ?md). \<not> matchesLabel toUpperCase_ascii SECTION_CONFIG (heading p)"
    unfolding s using a1 a2 by simp
  have b: "\<forall>part\<in>set (headedParts ?md').
             \<not> matchesLabel toUpperCase_ascii SECTION_CONFIG_part_000 (fst part)"
    unfolding h using b1 b2 by simp
  have r1: "parseSections toUpperCase_ascii ?md = Inr []"
    using parseSections_no_match_empty [of ?md toUpperCase_ascii] a by blast
  have r2: "parseSections_part_000 toUpperCase_ascii ?md' = []"
    using parseSections_no_match_empty [of ?md' toUpperCase_ascii] b by blast
  show ?thesis
    using s a1 a2 r1 h b1 b2 r2 by blast
qed

text \<open>
  As stated, C1 fails twice. In src/app/page.tsx a text without any \<^verbatim>\<open>#\<close>, hence
  without a heading, still yields a section when its first line holds a key. In
  src/unnamed/part_001 a part is kept whatever its heading: a heading without any key
  yields a section under the default icon.
\<close>

theorem parseSections_no_match_empty_counterexample:
  "\<not> includes_js (js ''KEY DEVELOPMENTS'' @ [10] @ js ''Something happened'') (js ''#'') \<and>
   parseSections toUpperCase_ascii (js ''KEY DEVELOPMENTS'' @ [10] @ js ''Something happened'') =
     Inr [\<lparr>title = js ''KEY DEVELOPMENTS'', content = js ''Something happened'',
            icon = [9889], gradient = js ''from-orange-500/10 to-transparent''\<rparr>] \<and>
   split_sections (js ''### Weather'' @ [10] @ js ''Sunny'') =
     [[], js ''Weather'' @ [10] @ js ''Sunny''] \<and>
   heading [] = [] \<and>
   heading (js ''Weather'' @ [10] @ js ''Sunny'') = js ''Weather'' \<and>
   \<not> matchesLabel toUpperCase_ascii sectionMap [] \<and>
   \<not> matchesLabel toUpperCase_ascii sectionMap (js ''Weather'') \<and>
   parseSections_part_001 toUpperCase_ascii (js ''### Weather'' @ [10] @ js ''Sunny'') =
     Inr [\<lparr>title = js ''Weather'', content = js ''Sunny'', icon = defaultIcon\<rparr>]"
  by code_simp

text \<open>
  C2, as the code has it. In src/app/page.tsx and src/unnamed/part_000 the output is, in
  the order of the parts, the section of every part whose heading text matches a category
  key (case-insensitive substring) and whose body is non-empty after trimming; every
  other part is dropped. (In part_000 the heading text must also be non-empty, which a
  match implies as soon as upper-casing maps the empty string to itself.) In
  src/unnamed/part_001 a part contributes exactly when its body is non-empty after
  trimming, whatever its heading.
\<close>

theorem parseSections_contributes:
  "parseSections up md = Inr (List.map_filter (sectionOf up) (split_sections md)) \<and>
   (sectionOf up p \<noteq> None) = (matchesLabel up SECTION_CONFIG (heading p) \<and> body p \<noteq> []) \<and>
   parseSections_part_000 up md = List.map_filter (sectionOf_part_000 up) (headedParts md) \<and>
   (sectionOf_part_000 up (t, c) \<noteq> None) =
      (t \<noteq> [] \<and> matchesLabel up SECTION_CONFIG_part_000 t \<and> trim (join_nl c) \<noteq> []) \<and>
   (up [] = [] \<longrightarrow> \<not> matchesLabel up SECTION_CONFIG_part_000 []) \<and>
   parseSections_part_001 up md = Inr (List.map_filter (sectionOf_part_001 up) (split_sections md)) \<and>
   (sectionOf_part_001 up p \<noteq> None) = (body p \<noteq> [])"
proof (intro conjI)
  show "parseSections up md = Inr (List.map_filter (sectionOf up) (split_sections md))"
    by (rule parseSections_eq)
  show "(sectionOf up p \<noteq> None) = (matchesLabel up SECTION_CONFIG (heading p) \<and> body p \<noteq> [])"
    by (rule sectionOf_Some_iff)
  show "parseSections_part_000 up md = List.map_filter (sectionOf_part_000 up) (headedParts md)"
    by (rule parseSections_part_000_eq)
  show "(sectionOf_part_000 up (t, c) \<noteq> None) =
          (t \<noteq> [] \<and> matchesLabel up SECTION_CONFIG_part_000 t \<and> trim (join_nl c) \<noteq> [])"
    by (rule sectionOf_part_000_Some_iff)
  show "up [] = [] \<longrightarrow> \<not> matchesLabel up SECTION_CONFIG_part_000 []"
    using no_label_in_empty [of up] by blast
  show "parseSections_part_001 up md =
          Inr (List.map_filter (sectionOf_part_001 up) (split_sections md))"
    by (rule parseSections_part_001_eq)
  show "(sectionOf_part_001 up p \<noteq> None) = (body p \<noteq> [])"
    by (simp add: sectionOf_part_001_def)
qed

theorem parseSections_contributes_witness:
  "toUpperCase_ascii [] = [] \<and>
   parseSections toUpperCase_ascii
     (js ''### Key Developments'' @ [10] @ js ''A'' @ [10] @ js ''### Community Pulse'' @ [10, 10] @
      js ''### Weather'' @ [10] @ js ''Sunny'') =
     Inr [\<lparr>title = js ''KEY DEVELOPMENTS'', content = js ''A'',
            icon = [9889], gradient = js ''from-orange-500/10 to-transparent''\<rparr>] \<and>
   \<not> matchesLabel toUpperCase_ascii SECTION_CONFIG_part_000 []"
proof -
  let ?md = "js ''### Key Developments'' @ [10] @ js ''A'' @ [10] @ js ''### Community Pulse'' @ [10, 10] @
      js ''### Weather'' @ [10] @ js ''Sunny''"
  have u: "toUpperCase_ascii [] = []"
    by (simp add: toUpperCase_ascii_def)
  have e: "List.map_filter (sectionOf toUpperCase_ascii) (split_sections ?md) =
             [\<lparr>title = js ''KEY DEVELOPMENTS'', content = js ''A'',
               icon = [9889], gradient = js ''from-orange-500/10 to-transparent''\<rparr>]"
    by code_simp
  have p: "parseSections toUpperCase_ascii ?md =
             Inr (List.map_filter (sectionOf toUpperCase_ascii) (split_sections ?md))"
    using parseSections_contributes [of toUpperCase_ascii ?md] by blast
  have n: "\<not> matchesLabel toUpperCase_ascii SECTION_CONFIG_part_000 []"
    using parseSections_contributes [of toUpperCase_ascii ?md] u by blast
  show ?thesis
    using u n p unfolding e by blast
qed

text \<open>
  As stated for all three revisions, C2 fails on src/unnamed/part_001: the heading
  \<open>Notes\<close> matches no label, and its part contributes a section all the same.
\<close>

theorem parseSections_contributes_counterexample:
  "split_sections (js ''### Notes'' @ [10] @ js ''Buy milk'') =
     [[], js ''Notes'' @ [10] @ js ''Buy milk''] \<and>
   heading (js ''Notes'' @ [10] @ js ''Buy milk'') = js ''Notes'' \<and>
   \<not> matchesLabel toUpperCase_ascii sectionMap (js ''Notes'') \<and>
   parseSections_part_001 toUpperCase_ascii (js ''### Notes'' @ [10] @ js ''Buy milk'') =
     Inr [\<lparr>title = js ''Notes'', content = js ''Buy milk'', icon = defaultIcon\<rparr>]"
  by code_simp



text \<open>
  C7. For every input string \<open>parseSections\<close> returns a section list, never the TypeError
  of reading \<^verbatim>\<open>lines[0]\<close>, and \<open>formatBullets\<close> returns one entry for every line of its
  input: \<^verbatim>\<open>null\<close> for a blank line and a block for every other line. Both are total
  functions: their scans terminate on every string.
\<close>

theorem parseSections_total:
  "(\<exists>secs. parseSections up md = Inr secs) \<and>
   length (formatBullets text) = length (split_nl text) \<and>
   (formatLine i line = None) = (trim line = [])"
  by (simp add: parseSections_eq formatBullets_def formatLine_def Let_def)



section \<open>Properties of the inline formatter\<close>

subsection \<open>The numeric scan\<close>











subsection \<open>The claims about the formatter\<close>




text \<open>
  C5. The formatter applied to the line \<^verbatim>\<open>- **Revenue** grew 42%\<close> produces one bullet
  block; its text is \<^verbatim>\<open>Revenue\<close> in the emphasis span, then \<^verbatim>\<open> grew \<close>, then \<^verbatim>\<open>42%\<close> in
  the numeric span, without the leading bullet glyph.
\<close>

text \<open>
  C5. The formatter applied to the line \<^verbatim>\<open>- **Revenue** grew 42%\<close> produces one bullet
  block; its text is \<^verbatim>\<open>Revenue\<close> in the emphasis span, then \<^verbatim>\<open> grew \<close>, then \<^verbatim>\<open>42%\<close> in
  the numeric span, without the leading bullet glyph.
\<close>

theorem formatBullets_revenue:
  "formatBullets (js ''- **Revenue** grew 42%'') =
     [Some (Bullet 0 (emphasisOpen @ js ''Revenue'' @ spanClose @ js '' grew '' @
                      numberOpen @ js ''42%'' @ spanClose))]"
  by code_simp

text \<open>
  C6, as the code has it. In src/app/page.tsx and src/unnamed/part_000 the line
  \<^verbatim>\<open>1. Ship the report\<close> produces one bullet block whose text is \<^verbatim>\<open>Ship the report\<close>:
  the ordinal prefix is stripped and no span is added. In src/unnamed/part_001, which has
  no rule for numbered lines, the same text is produced as a block without the bullet
  glyph.
\<close>

theorem formatBullets_ordinal:
  "formatBullets (js ''1. Ship the report'') = [Some (Bullet 0 (js ''Ship the report''))] \<and>
   formatBullets_part_001 (js ''1. Ship the report'') = [Some (Paragraph 0 (js ''Ship the report''))]"
  by code_simp

text \<open>
  As stated for all three revisions, C6 fails on src/unnamed/part_001: the block is no
  bullet block there.
\<close>

theorem formatBullets_ordinal_counterexample:
  "formatBullets_part_001 (js ''1. Ship the report'') \<noteq> [Some (Bullet 0 (js ''Ship the report''))]"
  by code_simp

section \<open>Properties of the action-item list\<close>

text \<open>
  C10. For every action-item list and every target id, \<open>toggleActionItem\<close> returns a list
  of the same length and order; an item whose id differs from the target is unchanged, and
  an item whose id equals the target is the same item with only its completed flag
  negated (id, text and every further property preserved).
\<close>

theorem toggleActionItem_frame:
  "length (toggleActionItem ident prev) = length prev \<and>
   (\<forall>k < length prev.
      (item_id (prev ! k) \<noteq> ident \<longrightarrow> toggleActionItem ident prev ! k = prev ! k) \<and>
      (item_id (prev ! k) = ident \<longrightarrow>
         toggleActionItem ident prev ! k = (prev ! k)\<lparr>completed := \<not> completed (prev ! k)\<rparr> \<and>
         item_id (toggleActionItem ident prev ! k) = item_id (prev ! k) \<and>
         item_text (toggleActionItem ident prev ! k) = item_text (prev ! k) \<and>
         completed (toggleActionItem ident prev ! k) = (\<not> completed (prev ! k)) \<and>
         ActionItem.more (toggleActionItem ident prev ! k) = ActionItem.more (prev ! k)))"
  by (simp add: toggleActionItem_def)

theorem toggleActionItem_frame_witness:
  "toggleActionItem (js ''17'')
     [\<lparr>item_id = js ''16'', item_text = js ''call'', completed = True\<rparr>,
      \<lparr>item_id = js ''17'', item_text = js ''ship'', completed = False\<rparr>]
   = [\<lparr>item_id = js ''16'', item_text = js ''call'', completed = True\<rparr>,
      \<lparr>item_id = js ''17'', item_text = js ''ship'', completed = True\<rparr>]"
proof -
  let ?xs = "[\<lparr>item_id = js ''16'', item_text = js ''call'', completed = True\<rparr>,
              \<lparr>item_id = js ''17'', item_text = js ''ship'', completed = False\<rparr>]"
  have len: "length (toggleActionItem (js ''17'') ?xs) = 2"
    using toggleActionItem_frame [of "js ''17''" ?xs] by simp
  have k0: "toggleActionItem (js ''17'') ?xs ! 0 = ?xs ! 0"
    using toggleActionItem_frame [of "js ''17''" ?xs] by (simp add: js_def)
  have k1: "toggleActionItem (js ''17'') ?xs ! 1 = (?xs ! 1)\<lparr>completed := True\<rparr>"
    using toggleActionItem_frame [of "js ''17''" ?xs] by (simp add: js_def)
  show ?thesis
    using len k0 k1 by (simp add: list_eq_iff_nth_eq less_Suc_eq numeral_2_eq_2)
qed

end
